theory Spec2Isabelle
  imports Main "HOL-Library.Word"
begin

section \<open>The resolution core of blocky: bootstrap, IPSet and conditional upstreams\<close>

text \<open>
  A shallow embedding of \<^verbatim>\<open>resolver/bootstrap.go\<close> and of the conditional upstream
  resolver. Go's \<^verbatim>\<open>nil\<close> is \<open>None\<close>, a run-time panic is an explicit outcome, a pair
  \<^verbatim>\<open>(value, error)\<close> is a pair of options, and a collaborator that lives outside these
  files (the DNS library, the standard library, other resolvers) is a parameter.
\<close>

subsection \<open>Addresses and the round-robin IPSet\<close>

text \<open>\<^verbatim>\<open>net.IP\<close> is a byte slice.\<close>

type_synonym IP = "8 word list"

text \<open>
  \<^verbatim>\<open>type IPSet struct { values []net.IP; index uint32 }\<close>.
  The field \<^verbatim>\<open>values\<close> is written \<open>values'\<close>.
\<close>

record IPSet =
  values' :: "IP list"
  index :: "32 word"

text \<open>\<^verbatim>\<open>newIPSet\<close>: the struct literal leaves \<^verbatim>\<open>index\<close> at its zero value.\<close>

definition newIPSet :: "IP list \<Rightarrow> IPSet" where
  "newIPSet ips = \<lparr>values' = ips, index = 0\<rparr>"

text \<open>
  \<^verbatim>\<open>Current\<close>: \<^verbatim>\<open>ips.values[idx]\<close> panics when \<^verbatim>\<open>idx\<close> is out of range;
  the panic is \<open>None\<close>.
\<close>

definition Current :: "IPSet \<Rightarrow> IP option" where
  "Current ips =
     (let idx = index ips
      in if unat idx < length (values' ips) then Some (values' ips ! unat idx) else None)"

text \<open>
  \<^verbatim>\<open>Next\<close>, run by one goroutine at a time: \<^verbatim>\<open>ips.index+1\<close> wraps at \<open>2^32\<close>,
  \<^verbatim>\<open>int(...)\<close> of a \<^verbatim>\<open>uint32\<close> is its unsigned value (64-bit \<^verbatim>\<open>int\<close>),
  \<^verbatim>\<open>%\<close> by a zero length panics (\<open>None\<close>), \<^verbatim>\<open>uint32(...)\<close> truncates, and the
  compare-and-swap against the value just read succeeds.
\<close>

definition Next :: "IPSet \<Rightarrow> IPSet option" where
  "Next ips =
     (let oldIP = index ips
      in if length (values' ips) = 0 then None
         else let newIP = (word_of_nat (unat (index ips + 1) mod length (values' ips)) :: 32 word)
              in Some (if index ips = oldIP then ips\<lparr>index := newIP\<rparr> else ips))"

text \<open>\<open>n\<close> calls of \<^verbatim>\<open>Next\<close> in a row.\<close>

fun Next_times :: "nat \<Rightarrow> IPSet \<Rightarrow> IPSet option" where
  "Next_times 0 ips = Some ips"
| "Next_times (Suc n) ips = (case Next ips of None \<Rightarrow> None | Some ips' \<Rightarrow> Next_times n ips')"

subsection \<open>DNS messages, requests and responses\<close>

text \<open>
  The parts of \<^verbatim>\<open>dns.Msg\<close>, \<^verbatim>\<open>model.Request\<close> and \<^verbatim>\<open>model.Response\<close> that the
  resolvers read or write. \<^verbatim>\<open>dns.RR\<close> is an interface; the type switch of
  \<^verbatim>\<open>resolveType\<close> tells \<^verbatim>\<open>*dns.A\<close> and \<^verbatim>\<open>*dns.AAAA\<close> from every other record.
\<close>

datatype dns_Type = TypeA | TypeAAAA | TypeOther nat

record dns_Question =
  Name :: string
  Qtype :: dns_Type

datatype dns_RR = A IP | AAAA IP | OtherRR string

record dns_Msg =
  Question :: "dns_Question list"
  Answer :: "dns_RR list"
  Rcode :: int

definition RcodeSuccess :: int where
  "RcodeSuccess = 0"

record Request =
  Req :: dns_Msg

datatype ResponseType =
  ResponseTypeRESOLVED | ResponseTypeCACHED | ResponseTypeBLOCKED
| ResponseTypeCONDITIONAL | ResponseTypeCUSTOMDNS | ResponseTypeOther nat

record Response =
  Res :: dns_Msg
  Reason :: string
  RType :: ResponseType

text \<open>A function that may panic: the panic is an outcome of its own.\<close>

datatype 'a outcome = Panic | Return 'a

subsection \<open>Configuration and errors\<close>

datatype NetProtocol = NetProtocolTcpUdp | NetProtocolTcpTls | NetProtocolHttps

record Upstream =
  Net :: NetProtocol
  Host :: string
  Port :: nat
  Path :: string

text \<open>An entry of \<^verbatim>\<open>config.BootstrapDNSConfig\<close>.\<close>

record BootstrappedUpstreamConfig =
  Upstream :: Upstream
  IPs :: "IP list"

datatype IPVersion = IPVersionDual | IPVersionV4 | IPVersionV6

record Config =
  BootstrapDNS :: "BootstrappedUpstreamConfig list"
  UpstreamTimeout :: nat
  ConnectIPVersion :: IPVersion

text \<open>
  Errors. Each \<^verbatim>\<open>fmt.Errorf\<close> of the source is a constructor holding the values it
  formats; \<open>MultiError\<close> is \<^verbatim>\<open>*multierror.Error\<close>; \<open>CollabError\<close> is an error made by
  a collaborator.
\<close>

datatype err =
  CollabError string
| NoSuchHost string
| ItemNotConfigured nat "IP list"
| ItemMustUseIP nat Upstream NetProtocol
| ItemRequiresIPs nat Upstream NetProtocol
| InvalidBootstrapDns err
| CouldNotCreateParallelBest err
| MultiError "err list"

text \<open>
  \<^verbatim>\<open>multierror.Append(err, e)\<close> of go-multierror: a nil or non-multi \<^verbatim>\<open>err\<close> starts a
  new list, and an appended multi-error is flattened into its elements.
\<close>

fun multierror_flatten :: "err \<Rightarrow> err list" where
  "multierror_flatten (MultiError es) = es"
| "multierror_flatten e = [e]"

fun multierror_Append :: "err option \<Rightarrow> err \<Rightarrow> err" where
  "multierror_Append None e = MultiError (multierror_flatten e)"
| "multierror_Append (Some (MultiError es)) e = MultiError (es @ multierror_flatten e)"
| "multierror_Append (Some e0) e = MultiError (e0 # multierror_flatten e)"

subsection \<open>Resolvers and collaborators\<close>

text \<open>
  \<^verbatim>\<open>Resolve(request *model.Request) (*model.Response, error)\<close>: a resolver other than
  the ones defined here is a function of the request and of the state \<open>'s\<close> of the world
  outside (caches, the network). It returns the request as it left it (the request is
  passed by pointer), the response, the error, and the new state.
\<close>

type_synonym 's Resolver = "Request \<Rightarrow> 's \<Rightarrow> (Request \<times> Response option \<times> err option) \<times> 's"

text \<open>
  \<^verbatim>\<open>(*net.Resolver).LookupIP(ctx, network, host)\<close>. The context carries the timeout
  (\<open>None\<close>: no timeout); the network string is \<^verbatim>\<open>cfg.ConnectIPVersion.Net()\<close>, so the
  model passes the IP version.
\<close>

type_synonym 's LookupIP = "nat option \<Rightarrow> IPVersion \<Rightarrow> string \<Rightarrow> 's \<Rightarrow> (IP list \<times> err option) \<times> 's"

type_synonym ref = nat

text \<open>A connection made by \<^verbatim>\<open>net.Dialer\<close>.\<close>

type_synonym Conn = nat

text \<open>
  The functions used by the source and defined outside it, as parameters:
  \<^item> \<open>ParseIP\<close> is \<^verbatim>\<open>net.ParseIP\<close> (\<open>None\<close> is its nil result);
  \<^item> \<open>IsDefault\<close> is \<^verbatim>\<open>config.Upstream.IsDefault\<close>;
  \<^item> \<open>NewMsgWithQuestion\<close> is \<^verbatim>\<open>util.NewMsgWithQuestion\<close>;
  \<^item> \<open>ExtractDomain\<close> is \<^verbatim>\<open>util.ExtractDomain\<close> and \<open>Fqdn\<close> is \<^verbatim>\<open>dns.Fqdn\<close>;
  \<^item> \<open>newParallelBestResolver\<close> gets the resolvers of the single group and returns
    an error (\<open>Inl\<close>) or a resolver;
  \<^item> \<open>ChainFilteringCaching p\<close> is
    \<^verbatim>\<open>Chain(NewFilteringResolver(cfg.Filtering), NewCachingResolver(cfg.Caching, nil), p)\<close>;
  \<^item> \<open>DefaultResolver\<close> is \<^verbatim>\<open>net.DefaultResolver\<close>;
  \<^item> \<open>SplitHostPort\<close> is \<^verbatim>\<open>net.SplitHostPort\<close>, \<open>rand_Intn\<close> is \<^verbatim>\<open>rand.Intn\<close>, and
    \<open>dialer_DialContext network ip port\<close> is
    \<^verbatim>\<open>dialer.DialContext(ctx, network, net.JoinHostPort(ip.String(), port))\<close>.
\<close>

record 's Collab =
  ParseIP :: "string \<Rightarrow> IP option"
  IsDefault :: "Upstream \<Rightarrow> bool"
  NewMsgWithQuestion :: "string \<Rightarrow> dns_Type \<Rightarrow> dns_Msg"
  ExtractDomain :: "dns_Question \<Rightarrow> string"
  Fqdn :: "string \<Rightarrow> string"
  newParallelBestResolver :: "ref list \<Rightarrow> err + 's Resolver"
  ChainFilteringCaching :: "'s Resolver \<Rightarrow> 's Resolver"
  DefaultResolver :: "'s LookupIP"
  SplitHostPort :: "string \<Rightarrow> (string \<times> string) \<times> err option"
  rand_Intn :: "nat \<Rightarrow> 's \<Rightarrow> nat \<times> 's"
  dialer_DialContext :: "string \<Rightarrow> IP \<Rightarrow> string \<Rightarrow> 's \<Rightarrow> (Conn option \<times> err option) \<times> 's"

subsection \<open>Bootstrap\<close>

text \<open>
  \<^verbatim>\<open>*UpstreamResolver\<close>: the pointer (\<open>addr\<close>) is the identity of the resolver;
  \<^verbatim>\<open>bootstrapedResolvers\<close> is keyed by it.
\<close>

record UpstreamResolver =
  addr :: ref
  upstream :: Upstream

type_synonym bootstrapedResolvers = "(ref \<times> IP list) list"

record 's Bootstrap =
  resolver :: "'s Resolver option"
  bootstraped :: bootstrapedResolvers
  systemResolver :: "'s LookupIP"

definition v4v6QTypes :: "dns_Type list" where
  "v4v6QTypes = [TypeA, TypeAAAA]"

text \<open>
  \<^verbatim>\<open>newUpstreamResolverUnchecked(upstream, b)\<close> allocates a resolver; the model is told
  the address of the allocation.
\<close>

definition newUpstreamResolverUnchecked :: "ref \<Rightarrow> Upstream \<Rightarrow> UpstreamResolver" where
  "newUpstreamResolverUnchecked a u = \<lparr>addr = a, upstream = u\<rparr>"

text \<open>
  The loop of \<^verbatim>\<open>newBootstrapedResolvers\<close> over \<^verbatim>\<open>cfg\<close>, from the 0-based position
  \<open>i0\<close>, with the map and the multi-error built so far. The resolver made for item
  \<open>i\<close> is allocated at address \<open>i\<close>: every valid item gets a key of its own.
\<close>

fun newBootstrapedResolvers_loop ::
  "'s Collab \<Rightarrow> nat \<Rightarrow> BootstrappedUpstreamConfig list \<Rightarrow> bootstrapedResolvers \<Rightarrow> err option
   \<Rightarrow> bootstrapedResolvers \<times> err option" where
  "newBootstrapedResolvers_loop c i0 [] upstreamIPs multiErr = (upstreamIPs, multiErr)"
| "newBootstrapedResolvers_loop c i0 (upstreamCfg # rest) upstreamIPs multiErr =
     (let i = i0 + 1;
          upstream = Upstream upstreamCfg
      in if IsDefault c upstream then
           newBootstrapedResolvers_loop c (i0 + 1) rest upstreamIPs
             (Some (multierror_Append multiErr (ItemNotConfigured i (IPs upstreamCfg))))
         else if Net upstream = NetProtocolTcpUdp then
           (case ParseIP c (Host upstream) of
              None \<Rightarrow>
                newBootstrapedResolvers_loop c (i0 + 1) rest upstreamIPs
                  (Some (multierror_Append multiErr (ItemMustUseIP i upstream (Net upstream))))
            | Some ip \<Rightarrow>
                newBootstrapedResolvers_loop c (i0 + 1) rest
                  (upstreamIPs @ [(addr (newUpstreamResolverUnchecked i upstream), [ip])]) multiErr)
         else
           (let ips = IPs upstreamCfg
            in if length ips = 0 then
                 newBootstrapedResolvers_loop c (i0 + 1) rest upstreamIPs
                   (Some (multierror_Append multiErr (ItemRequiresIPs i upstream (Net upstream))))
               else
                 newBootstrapedResolvers_loop c (i0 + 1) rest
                   (upstreamIPs @ [(addr (newUpstreamResolverUnchecked i upstream), ips)]) multiErr))"

definition newBootstrapedResolvers ::
  "'s Collab \<Rightarrow> BootstrappedUpstreamConfig list \<Rightarrow> bootstrapedResolvers option \<times> err option" where
  "newBootstrapedResolvers c cfg =
     (case newBootstrapedResolvers_loop c 0 cfg [] None of
        (upstreamIPs, Some multiErr) \<Rightarrow> (None, Some (InvalidBootstrapDns multiErr))
      | (upstreamIPs, None) \<Rightarrow> (Some upstreamIPs, None))"

text \<open>\<^verbatim>\<open>ResolverGroups\<close>: the keys of the map, for the single default group.\<close>

definition ResolverGroups :: "bootstrapedResolvers \<Rightarrow> ref list" where
  "ResolverGroups br = map fst br"

definition NewBootstrap :: "'s Collab \<Rightarrow> Config \<Rightarrow> 's Bootstrap option \<times> err option" where
  "NewBootstrap c cfg =
     (let b = \<lparr>resolver = None, bootstraped = [], systemResolver = DefaultResolver c\<rparr>
      in case newBootstrapedResolvers c (BootstrapDNS cfg) of
           (_, Some e) \<Rightarrow> (None, Some e)
         | (None, None) \<Rightarrow> (Some b, None)
         | (Some bootstraped', None) \<Rightarrow>
             if length bootstraped' = 0 then (Some b, None)
             else (case newParallelBestResolver c (ResolverGroups bootstraped') of
                     Inl e \<Rightarrow> (None, Some (CouldNotCreateParallelBest e))
                   | Inr parallelResolver \<Rightarrow>
                       (Some (b\<lparr>bootstraped := bootstraped',
                                resolver := Some (ChainFilteringCaching c parallelResolver)\<rparr>), None)))"

text \<open>
  The loop of \<^verbatim>\<open>resolveType\<close> over the answer section: the type switch appends the
  address of a \<^verbatim>\<open>*dns.A\<close> or \<^verbatim>\<open>*dns.AAAA\<close> and has no case for anything else.
\<close>

fun resolveType_loop :: "dns_RR list \<Rightarrow> IP list \<Rightarrow> IP list" where
  "resolveType_loop [] ips = ips"
| "resolveType_loop (a # rest) ips =
     (case a of
        A rr_A \<Rightarrow> resolveType_loop rest (ips @ [rr_A])
      | AAAA rr_AAAA \<Rightarrow> resolveType_loop rest (ips @ [rr_AAAA])
      | OtherRR _ \<Rightarrow> resolveType_loop rest ips)"

text \<open>
  \<^verbatim>\<open>resolveType\<close>. Calling \<^verbatim>\<open>Resolve\<close> on a nil \<^verbatim>\<open>b.resolver\<close> panics, and so does
  reading \<^verbatim>\<open>rsp.Res\<close> of a nil response returned with a nil error.
\<close>

definition resolveType ::
  "'s Collab \<Rightarrow> 's Bootstrap \<Rightarrow> string \<Rightarrow> dns_Type \<Rightarrow> 's \<Rightarrow> (IP list \<times> err option) outcome \<times> 's" where
  "resolveType c b hostname qType s =
     (case ParseIP c hostname of
        Some ip \<Rightarrow> (Return ([ip], None), s)
      | None \<Rightarrow>
          (let req = \<lparr>Req = NewMsgWithQuestion c hostname qType\<rparr>
           in case resolver b of
                None \<Rightarrow> (Panic, s)
              | Some chain \<Rightarrow>
                  (case chain req s of
                     ((_, _, Some e), s') \<Rightarrow> (Return ([], Some e), s')
                   | ((_, None, None), s') \<Rightarrow> (Panic, s')
                   | ((_, Some rsp, None), s') \<Rightarrow>
                       if Rcode (Res rsp) \<noteq> RcodeSuccess then (Return ([], None), s')
                       else (Return (resolveType_loop (Answer (Res rsp)) [], None), s'))))"

text \<open>
  The loop of \<^verbatim>\<open>resolve\<close> over \<^verbatim>\<open>qTypes\<close>, with the named results \<^verbatim>\<open>ips\<close> and
  \<^verbatim>\<open>err\<close> as accumulators.
\<close>

fun resolve_loop ::
  "'s Collab \<Rightarrow> 's Bootstrap \<Rightarrow> string \<Rightarrow> dns_Type list \<Rightarrow> IP list \<Rightarrow> err option \<Rightarrow> 's
   \<Rightarrow> (IP list \<times> err option) outcome \<times> 's" where
  "resolve_loop c b hostname [] ips err s = (Return (ips, err), s)"
| "resolve_loop c b hostname (qType # rest) ips err s =
     (case resolveType c b hostname qType s of
        (Panic, s') \<Rightarrow> (Panic, s')
      | (Return (qIPs, Some qErr), s') \<Rightarrow>
          resolve_loop c b hostname rest ips (Some (multierror_Append err qErr)) s'
      | (Return (qIPs, None), s') \<Rightarrow>
          resolve_loop c b hostname rest (ips @ qIPs) err s')"

definition resolve ::
  "'s Collab \<Rightarrow> 's Bootstrap \<Rightarrow> string \<Rightarrow> dns_Type list \<Rightarrow> 's \<Rightarrow> (IP list \<times> err option) outcome \<times> 's" where
  "resolve c b hostname qTypes s =
     (case resolve_loop c b hostname qTypes [] None s of
        (Panic, s') \<Rightarrow> (Panic, s')
      | (Return (ips, err), s') \<Rightarrow>
          if err = None \<and> length ips = 0 then (Return ([], Some (NoSuchHost hostname)), s')
          else (Return (ips, err), s'))"

text \<open>
  \<^verbatim>\<open>resolveUpstream\<close>. \<^verbatim>\<open>config.GetConfig()\<close> is the argument \<open>cfg\<close>; \<open>r\<close> is the
  identity of the resolver asking.
\<close>

definition resolveUpstream ::
  "'s Collab \<Rightarrow> Config \<Rightarrow> 's Bootstrap \<Rightarrow> ref \<Rightarrow> string \<Rightarrow> 's \<Rightarrow> (IP list \<times> err option) outcome \<times> 's" where
  "resolveUpstream c cfg b r host s =
     (if resolver b = None then
        (let timeout = UpstreamTimeout cfg;
             ctx = (if timeout \<noteq> 0 then Some timeout else None)
         in case systemResolver b ctx (ConnectIPVersion cfg) host s of
              (res, s') \<Rightarrow> (Return res, s'))
      else case map_of (bootstraped b) r of
             Some ips \<Rightarrow> (Return (ips, None), s)
           | None \<Rightarrow> resolve c b host v4v6QTypes s)"

text \<open>
  \<^verbatim>\<open>UpstreamIPs\<close>. The receiver may be nil (\<open>None\<close>): the literal-IP path does not read
  it, and \<^verbatim>\<open>resolveUpstream\<close> on a nil receiver panics.
\<close>

definition UpstreamIPs ::
  "'s Collab \<Rightarrow> Config \<Rightarrow> 's Bootstrap option \<Rightarrow> UpstreamResolver \<Rightarrow> 's
   \<Rightarrow> (IPSet option \<times> err option) outcome \<times> 's" where
  "UpstreamIPs c cfg b r s =
     (let hostname = Host (upstream r)
      in case ParseIP c hostname of
           Some ip \<Rightarrow> (Return (Some (newIPSet [ip]), None), s)
         | None \<Rightarrow>
             (case b of
                None \<Rightarrow> (Panic, s)
              | Some b' \<Rightarrow>
                  (case resolveUpstream c cfg b' (addr r) hostname s of
                     (Panic, s') \<Rightarrow> (Panic, s')
                   | (Return (ips, Some e), s') \<Rightarrow> (Return (None, Some e), s')
                   | (Return (ips, None), s') \<Rightarrow> (Return (Some (newIPSet ips), None), s'))))"

text \<open>
  Modelled from the spec: \<^verbatim>\<open>config.IPVersion.QTypes\<close> is not under src/. A specific IP
  version forces the single address family; dual asks for both.
\<close>

fun QTypes :: "IPVersion \<Rightarrow> dns_Type list" where
  "QTypes IPVersionDual = [TypeA, TypeAAAA]"
| "QTypes IPVersionV4 = [TypeA]"
| "QTypes IPVersionV6 = [TypeAAAA]"

text \<open>\<^verbatim>\<open>strings.HasSuffix(s, "4")\<close> and its like, for a one-character suffix.\<close>

definition HasSuffix_char :: "string \<Rightarrow> char \<Rightarrow> bool" where
  "HasSuffix_char s ch = (case rev s of [] \<Rightarrow> False | x # _ \<Rightarrow> x = ch)"

text \<open>\<^verbatim>\<open>http.Transport\<close>: the dial hook, nil in the zero value.\<close>

record 's http_Transport =
  DialContext :: "(string \<Rightarrow> string \<Rightarrow> 's \<Rightarrow> (Conn option \<times> err option) outcome \<times> 's) option"

text \<open>
  The closure that \<^verbatim>\<open>NewHTTPTransport\<close> installs as \<^verbatim>\<open>DialContext\<close>.
  \<^verbatim>\<open>rand.Intn(0)\<close> panics, and so does an index out of range.
\<close>

definition NewHTTPTransport_DialContext ::
  "'s Collab \<Rightarrow> Config \<Rightarrow> 's Bootstrap \<Rightarrow> string \<Rightarrow> string \<Rightarrow> 's
   \<Rightarrow> (Conn option \<times> err option) outcome \<times> 's" where
  "NewHTTPTransport_DialContext c cfg b network addr' s =
     (case SplitHostPort c addr' of
        (_, Some e) \<Rightarrow> (Return (None, Some e), s)
      | ((host, port), None) \<Rightarrow>
          (let connectIPVersion = ConnectIPVersion cfg;
               qTypes =
                 (if connectIPVersion \<noteq> IPVersionDual then QTypes connectIPVersion
                  else if HasSuffix_char network (CHR ''4'') then [TypeA]
                  else if HasSuffix_char network (CHR ''6'') then [TypeAAAA]
                  else v4v6QTypes)
           in case resolve c b host qTypes s of
                (Panic, s1) \<Rightarrow> (Panic, s1)
              | (Return (ips, Some e), s1) \<Rightarrow> (Return (None, Some e), s1)
              | (Return (ips, None), s1) \<Rightarrow>
                  if length ips = 0 then (Panic, s1)
                  else (case rand_Intn c (length ips) s1 of
                          (n, s2) \<Rightarrow>
                            if n < length ips then
                              (case dialer_DialContext c network (ips ! n) port s2 of
                                 (res, s3) \<Rightarrow> (Return res, s3))
                            else (Panic, s2))))"

definition NewHTTPTransport :: "'s Collab \<Rightarrow> Config \<Rightarrow> 's Bootstrap \<Rightarrow> 's http_Transport" where
  "NewHTTPTransport c cfg b =
     (if resolver b = None then \<lparr>DialContext = None\<rparr>
      else \<lparr>DialContext = Some (NewHTTPTransport_DialContext c cfg b)\<rparr>)"

subsection \<open>ConditionalUpstreamResolver\<close>

text \<open>
  \<^verbatim>\<open>mapping map[string]Resolver\<close> is an association list read with \<open>map_of\<close>;
  \<^verbatim>\<open>next\<close> is the next link of the chain (nil: \<open>None\<close>).
\<close>

record 's ConditionalUpstreamResolver =
  mapping :: "(string \<times> 's Resolver) list"
  next' :: "'s Resolver option"

text \<open>\<^verbatim>\<open>strings.Index(s, ".")\<close>, with \<open>None\<close> for -1, and \<^verbatim>\<open>strings.Contains(s, ".")\<close>.\<close>

fun Index_dot :: "string \<Rightarrow> nat option" where
  "Index_dot [] = None"
| "Index_dot (ch # rest) =
     (if ch = CHR ''.'' then Some 0 else map_option Suc (Index_dot rest))"

definition Contains_dot :: "string \<Rightarrow> bool" where
  "Contains_dot s = (Index_dot s \<noteq> None)"

text \<open>
  \<^verbatim>\<open>internalResolve\<close>. \<^verbatim>\<open>req.Req.Question[0]\<close> panics on an empty question section;
  writing \<^verbatim>\<open>response.Reason\<close> panics on a nil response returned with a nil error. The
  request is passed on by pointer: the result holds it as the call leaves it.
\<close>

definition internalResolve ::
  "'s Collab \<Rightarrow> 's Resolver \<Rightarrow> string \<Rightarrow> string \<Rightarrow> Request \<Rightarrow> 's
   \<Rightarrow> (Request \<times> Response option \<times> err option) outcome \<times> 's" where
  "internalResolve c reso doFQ do' req s =
     (case Question (Req req) of
        [] \<Rightarrow> (Panic, s)
      | q # qs \<Rightarrow>
          (let req1 = req\<lparr>Req := (Req req)\<lparr>Question := q\<lparr>Name := Fqdn c doFQ\<rparr> # qs\<rparr>\<rparr>
           in case reso req1 s of
                ((req2, response, Some e), s1) \<Rightarrow> (Return (req2, response, Some e), s1)
              | ((req2, None, None), s1) \<Rightarrow> (Panic, s1)
              | ((req2, Some response, None), s1) \<Rightarrow>
                  (let response1 = response\<lparr>Reason := ''CONDITIONAL'', RType := ResponseTypeCONDITIONAL\<rparr>
                   in case Question (Res response1) of
                        [] \<Rightarrow> (Return (req2, Some response1, None), s1)
                      | rq # rqs \<Rightarrow>
                          (case Question (Req req2) of
                             [] \<Rightarrow> (Panic, s1)
                           | q2 # _ \<Rightarrow>
                               (Return (req2,
                                  Some (response1\<lparr>Res := (Res response1)
                                     \<lparr>Question := rq\<lparr>Name := Name q2\<rparr> # rqs\<rparr>\<rparr>),
                                  None), s1)))))"

text \<open>
  The \<^verbatim>\<open>for len(domain) > 0\<close> loop of \<^verbatim>\<open>processRequest\<close>. The result is
  \<^verbatim>\<open>(resolved, resp, err)\<close> together with the request as it is left.
\<close>

function processRequest_loop ::
  "'s Collab \<Rightarrow> 's ConditionalUpstreamResolver \<Rightarrow> string \<Rightarrow> string \<Rightarrow> Request \<Rightarrow> 's
   \<Rightarrow> (bool \<times> Request \<times> Response option \<times> err option) outcome \<times> 's" where
  "processRequest_loop c r domainFromQuestion domain request s =
     (if length domain > 0 then
        (case map_of (mapping r) domain of
           Some resolver1 \<Rightarrow>
             (case internalResolve c resolver1 domainFromQuestion domain request s of
                (Panic, s1) \<Rightarrow> (Panic, s1)
              | (Return (req1, resp, err), s1) \<Rightarrow> (Return (True, req1, resp, err), s1))
         | None \<Rightarrow>
             (case Index_dot domain of
                Some i \<Rightarrow> processRequest_loop c r domainFromQuestion (drop (i + 1) domain) request s
              | None \<Rightarrow> (Return (False, request, None, None), s)))
      else (Return (False, request, None, None), s))"
  by pat_completeness auto
termination
  by (relation "measure (\<lambda>(c, r, dfq, domain, request, s). length domain)") auto

declare processRequest_loop.simps [simp del]

definition processRequest ::
  "'s Collab \<Rightarrow> 's ConditionalUpstreamResolver \<Rightarrow> Request \<Rightarrow> 's
   \<Rightarrow> (bool \<times> Request \<times> Response option \<times> err option) outcome \<times> 's" where
  "processRequest c r request s =
     (case Question (Req request) of
        [] \<Rightarrow> (Panic, s)
      | q # _ \<Rightarrow>
          (let domainFromQuestion = ExtractDomain c q;
               domain = domainFromQuestion
           in if Contains_dot domainFromQuestion then
                processRequest_loop c r domainFromQuestion domain request s
              else (case map_of (mapping r) ''.'' of
                      Some resolver1 \<Rightarrow>
                        (case internalResolve c resolver1 domainFromQuestion domain request s of
                           (Panic, s1) \<Rightarrow> (Panic, s1)
                         | (Return (req1, resp, err), s1) \<Rightarrow> (Return (True, req1, resp, err), s1))
                    | None \<Rightarrow> (Return (False, request, None, None), s))))"

text \<open>\<^verbatim>\<open>r.next.Resolve(request)\<close>: calling \<^verbatim>\<open>Resolve\<close> on a nil next resolver panics.\<close>

definition next_Resolve ::
  "'s ConditionalUpstreamResolver \<Rightarrow> Request \<Rightarrow> 's
   \<Rightarrow> (Request \<times> Response option \<times> err option) outcome \<times> 's" where
  "next_Resolve r request s =
     (case next' r of
        None \<Rightarrow> (Panic, s)
      | Some nxt \<Rightarrow> (case nxt request s of (res, s1) \<Rightarrow> (Return res, s1)))"

text \<open>
  \<^verbatim>\<open>Resolve\<close> of the conditional resolver: the result is \<^verbatim>\<open>(resp, err)\<close> and the
  request as it is left.
\<close>

definition Resolve ::
  "'s Collab \<Rightarrow> 's ConditionalUpstreamResolver \<Rightarrow> Request \<Rightarrow> 's
   \<Rightarrow> (Request \<times> Response option \<times> err option) outcome \<times> 's" where
  "Resolve c r request s =
     (if length (mapping r) > 0 then
        (case processRequest c r request s of
           (Panic, s1) \<Rightarrow> (Panic, s1)
         | (Return (resolved, req1, resp, err), s1) \<Rightarrow>
             if resolved then (Return (req1, resp, err), s1) else next_Resolve r req1 s1)
      else next_Resolve r request s)"

subsection \<open>Library functions and collaborators for concrete runs\<close>

text \<open>\<^verbatim>\<open>strings.ToLower\<close> on the ASCII letters.\<close>

definition ToLower_char :: "char \<Rightarrow> char" where
  "ToLower_char ch =
     (case map_of (zip ''ABCDEFGHIJKLMNOPQRSTUVWXYZ'' ''abcdefghijklmnopqrstuvwxyz'') ch of
        Some l \<Rightarrow> l
      | None \<Rightarrow> ch)"

text \<open>
  Modelled from the spec: \<^verbatim>\<open>util.ExtractDomain\<close> is not under src/. The query domain is
  the name of the question, lower-cased as the keys of the mapping are, without the
  trailing dot of the fully-qualified form.
\<close>

definition util_ExtractDomain :: "dns_Question \<Rightarrow> string" where
  "util_ExtractDomain q =
     (let n = map ToLower_char (Name q)
      in if n \<noteq> [] \<and> last n = CHR ''.'' then butlast n else n)"

text \<open>
  Modelled from the spec: \<^verbatim>\<open>dns.Fqdn\<close> is not under src/. The fully-qualified form is
  the trailing-qualified one: \<^verbatim>\<open>sub.example.com\<close> is queried as \<^verbatim>\<open>sub.example.com.\<close>
\<close>

definition dns_Fqdn :: "string \<Rightarrow> string" where
  "dns_Fqdn s = (if s \<noteq> [] \<and> last s = CHR ''.'' then s else s @ ''.'')"

text \<open>
  Modelled from the spec: \<^verbatim>\<open>util.NewMsgWithQuestion\<close> is not under src/. It builds a
  single-question request of the given type.
\<close>

definition util_NewMsgWithQuestion :: "string \<Rightarrow> dns_Type \<Rightarrow> dns_Msg" where
  "util_NewMsgWithQuestion hostname qType =
     \<lparr>Question = [\<lparr>Name = dns_Fqdn hostname, Qtype = qType\<rparr>], Answer = [], Rcode = RcodeSuccess\<rparr>"

text \<open>
  Modelled from the spec: \<^verbatim>\<open>config.Upstream.IsDefault\<close> is not under src/. It is true of
  the unconfigured placeholder, the zero value of the struct.
\<close>

definition config_IsDefault :: "Upstream \<Rightarrow> bool" where
  "config_IsDefault u = (u = \<lparr>Net = NetProtocolTcpUdp, Host = [], Port = 0, Path = []\<rparr>)"

text \<open>
  The collaborators of the concrete runs. The state of the world is the number of calls
  made to a collaborator that resolves, dials or draws a random number, so a run that
  leaves it unchanged has made none. \<open>test_ParseIP\<close> is \<^verbatim>\<open>net.ParseIP\<close> on the two
  literals used (an IPv4 literal gives the 16-byte form, as an IPv6 literal does), and nil
  on every host name used.
\<close>

definition test_ParseIP :: "string \<Rightarrow> IP option" where
  "test_ParseIP h =
     (if h = ''1.1.1.1'' then Some [0, 0, 0, 0, 0, 0, 0, 0, 0, 0, 255, 255, 1, 1, 1, 1]
      else if h = ''2606:4700:4700::1111''
        then Some [38, 6, 71, 0, 71, 0, 0, 0, 0, 0, 0, 0, 0, 0, 17, 17]
      else None)"

definition test_upstream :: "(dns_Question \<Rightarrow> Response option \<times> err option) \<Rightarrow> nat Resolver" where
  "test_upstream answer req s =
     (case Question (Req req) of
        [] \<Rightarrow> ((req, None, Some (CollabError ''no question'')), Suc s)
      | q # _ \<Rightarrow> ((req, answer q), Suc s))"

text \<open>An upstream that echoes the question and answers with the given records.\<close>

definition test_answer :: "dns_RR list \<Rightarrow> dns_Question \<Rightarrow> Response option \<times> err option" where
  "test_answer rrs q =
     (Some \<lparr>Res = \<lparr>Question = [q], Answer = rrs, Rcode = RcodeSuccess\<rparr>,
            Reason = ''RESOLVED'', RType = ResponseTypeRESOLVED\<rparr>, None)"

definition test_Collab :: "nat Collab" where
  "test_Collab =
     \<lparr>ParseIP = test_ParseIP,
      IsDefault = config_IsDefault,
      NewMsgWithQuestion = util_NewMsgWithQuestion,
      ExtractDomain = util_ExtractDomain,
      Fqdn = dns_Fqdn,
      newParallelBestResolver = (\<lambda>rs. Inr (test_upstream (test_answer [A [9, 9, 9, 9]]))),
      ChainFilteringCaching = (\<lambda>p. p),
      DefaultResolver = (\<lambda>ctx v host s. (([[127, 0, 0, 1]], None), Suc s)),
      SplitHostPort = (\<lambda>a. ((a, ''443''), None)),
      rand_Intn = (\<lambda>n s. (0, Suc s)),
      dialer_DialContext = (\<lambda>network ip port s. ((Some 0, None), Suc s))\<rparr>"

text \<open>
  A configuration with one bootstrap upstream given by a literal address and one given by
  a host name with hardcoded addresses, and the Bootstrap that \<^verbatim>\<open>NewBootstrap\<close> builds
  from it with the collaborators above.
\<close>

definition test_Config :: Config where
  "test_Config =
     \<lparr>BootstrapDNS =
        [\<lparr>Upstream = \<lparr>Net = NetProtocolTcpUdp, Host = ''1.1.1.1'', Port = 53, Path = []\<rparr>, IPs = []\<rparr>,
         \<lparr>Upstream = \<lparr>Net = NetProtocolTcpTls, Host = ''dns.google'', Port = 853, Path = []\<rparr>,
          IPs = [[8, 8, 8, 8], [8, 8, 4, 4]]\<rparr>],
      UpstreamTimeout = 2000,
      ConnectIPVersion = IPVersionDual\<rparr>"

definition test_Bootstrap :: "nat Bootstrap" where
  "test_Bootstrap =
     \<lparr>resolver = Some (test_upstream (test_answer [A [9, 9, 9, 9]])),
      bootstraped = [(1, [[0, 0, 0, 0, 0, 0, 0, 0, 0, 0, 255, 255, 1, 1, 1, 1]]),
                     (2, [[8, 8, 8, 8], [8, 8, 4, 4]])],
      systemResolver = DefaultResolver test_Collab\<rparr>"

text \<open>
  A configuration whose first entry is valid, whose second is a TCP/UDP upstream given by
  a host name, and whose third is an HTTPS upstream without hardcoded addresses.
\<close>

definition test_bad_Config :: Config where
  "test_bad_Config =
     \<lparr>BootstrapDNS =
        [\<lparr>Upstream = \<lparr>Net = NetProtocolTcpUdp, Host = ''1.1.1.1'', Port = 53, Path = []\<rparr>, IPs = []\<rparr>,
         \<lparr>Upstream = \<lparr>Net = NetProtocolTcpUdp, Host = ''dns.google'', Port = 53, Path = []\<rparr>, IPs = []\<rparr>,
         \<lparr>Upstream = \<lparr>Net = NetProtocolHttps, Host = ''dns.google'', Port = 443, Path = ''/dns-query''\<rparr>,
          IPs = []\<rparr>],
      UpstreamTimeout = 2000,
      ConnectIPVersion = IPVersionDual\<rparr>"

text \<open>A chain whose A query fails and whose AAAA query yields one address.\<close>

definition test_A_fails :: "dns_Question \<Rightarrow> Response option \<times> err option" where
  "test_A_fails q =
     (if Qtype q = TypeA then (None, Some (CollabError ''i/o timeout''))
      else test_answer [AAAA [38, 6, 71, 0, 71, 0, 0, 0, 0, 0, 0, 0, 0, 0, 17, 17]] q)"

text \<open>An answer section that mixes address records with records of other types.\<close>

definition test_mixed_answer :: "dns_Question \<Rightarrow> Response option \<times> err option" where
  "test_mixed_answer =
     test_answer [OtherRR ''CNAME dns.google.'', A [8, 8, 8, 8], OtherRR ''TXT'',
                  AAAA [32, 1, 72, 96, 72, 96, 0, 0, 0, 0, 0, 0, 0, 0, 136, 136], A [8, 8, 4, 4]]"

text \<open>
  A request with one question, and the conditional resolver of the mapping
  \<^verbatim>\<open>{"example.com": U1, ".": U2}\<close> with the next link \<^verbatim>\<open>U3\<close>; the three upstreams
  answer with different addresses.
\<close>

definition test_request :: "string \<Rightarrow> Request" where
  "test_request name =
     \<lparr>Req = \<lparr>Question = [\<lparr>Name = name, Qtype = TypeA\<rparr>], Answer = [], Rcode = RcodeSuccess\<rparr>\<rparr>"

definition test_conditional :: "nat ConditionalUpstreamResolver" where
  "test_conditional =
     \<lparr>mapping = [(''example.com'', test_upstream (test_answer [A [10, 0, 0, 1]])),
                 (''.'', test_upstream (test_answer [A [10, 0, 0, 2]]))],
      next' = Some (test_upstream (test_answer [A [10, 0, 0, 3]]))\<rparr>"

subsection \<open>The properties' own terms\<close>

text \<open>
  The address records of an answer section: the addresses of its A and AAAA records, in
  order, and nothing for a record of any other type.
\<close>

definition address_records :: "dns_RR list \<Rightarrow> IP list" where
  "address_records answer =
     concat (map (\<lambda>rr. case rr of A ip \<Rightarrow> [ip] | AAAA ip \<Rightarrow> [ip] | OtherRR _ \<Rightarrow> []) answer)"

text \<open>
  The validation error of the bootstrap entry with the user-visible index \<open>i\<close>, if it
  is invalid: an unconfigured upstream, a TCP/UDP upstream whose host is not a literal
  IP, or an upstream of another protocol without hardcoded IPs.
\<close>

definition item_error :: "'s Collab \<Rightarrow> nat \<Rightarrow> BootstrappedUpstreamConfig \<Rightarrow> err option" where
  "item_error c i x =
     (if IsDefault c (Upstream x) then Some (ItemNotConfigured i (IPs x))
      else if Net (Upstream x) = NetProtocolTcpUdp \<and> ParseIP c (Host (Upstream x)) = None
        then Some (ItemMustUseIP i (Upstream x) (Net (Upstream x)))
      else if Net (Upstream x) \<noteq> NetProtocolTcpUdp \<and> IPs x = []
        then Some (ItemRequiresIPs i (Upstream x) (Net (Upstream x)))
      else None)"

definition invalid_item :: "'s Collab \<Rightarrow> BootstrappedUpstreamConfig \<Rightarrow> bool" where
  "invalid_item c x = (item_error c 0 x \<noteq> None)"

text \<open>The validation errors of the entries after the first \<open>i0\<close>, in order.\<close>

fun item_errors :: "'s Collab \<Rightarrow> nat \<Rightarrow> BootstrappedUpstreamConfig list \<Rightarrow> err list" where
  "item_errors c i0 [] = []"
| "item_errors c i0 (x # xs) =
     (case item_error c (i0 + 1) x of
        Some e \<Rightarrow> e # item_errors c (i0 + 1) xs
      | None \<Rightarrow> item_errors c (i0 + 1) xs)"

text \<open>
  The candidates of a dotted domain, most specific first: the full domain, then what is
  left each time the leftmost label and its dot are stripped.
\<close>

function label_suffixes :: "string \<Rightarrow> string list" where
  "label_suffixes d =
     (if d = [] then []
      else d # (case Index_dot d of
                  Some i \<Rightarrow> label_suffixes (drop (i + 1) d)
                | None \<Rightarrow> []))"
  by pat_completeness auto
termination
  by (relation "measure length") auto

declare label_suffixes.simps [simp del]

text \<open>The first candidate that is a key of the mapping, with its entry.\<close>

fun first_hit :: "(string \<times> 'r) list \<Rightarrow> string list \<Rightarrow> (string \<times> 'r) option" where
  "first_hit m [] = None"
| "first_hit m (x # xs) =
     (case map_of m x of
        Some reso \<Rightarrow> Some (x, reso)
      | None \<Rightarrow> first_hit m xs)"

text \<open>
  The entry that answers a query domain: for a dotted domain the first hit among its
  candidates, for a dot-free domain the root entry \<^verbatim>\<open>"."\<close> only.
\<close>

definition match_domain :: "(string \<times> 'r) list \<Rightarrow> string \<Rightarrow> (string \<times> 'r) option" where
  "match_domain m d =
     (if Contains_dot d then first_hit m (label_suffixes d)
      else map_option (Pair d) (map_of m ''.''))"

section \<open>Properties\<close>

subsection \<open>IPSet\<close>

lemma Next_Some:
  assumes "values' s \<noteq> []"
  shows "\<exists>s'. Next s = Some s' \<and> values' s' = values' s \<and> unat (index s') < length (values' s')"
proof -
  let ?n = "length (values' s)"
  let ?k = "unat (index s + 1) mod ?n"
  have pos: "0 < ?n" using assms by simp
  have "?k \<le> unat (index s + 1)" by simp
  also have "\<dots> < 2 ^ LENGTH(32)" by (rule unsigned_less)
  finally have "?k < 2 ^ LENGTH(32)" .
  then have "unat (word_of_nat ?k :: 32 word) = ?k"
    by (rule of_nat_inverse [OF refl])
  moreover have "?k < ?n" using pos by simp
  ultimately show ?thesis using pos by (simp add: Next_def Let_def)
qed

lemma Next_times_inv:
  "values' s \<noteq> [] \<Longrightarrow> unat (index s) < length (values' s) \<Longrightarrow>
   \<exists>s'. Next_times n s = Some s' \<and> values' s' = values' s \<and> unat (index s') < length (values' s')"
proof (induction n arbitrary: s)
  case 0
  then show ?case by simp
next
  case (Suc n)
  from Next_Some [OF Suc.prems(1)] obtain t where
    t: "Next s = Some t" "values' t = values' s" "unat (index t) < length (values' t)"
    by blast
  from Suc.IH [of t] t Suc.prems(1) obtain s' where
    "Next_times n t = Some s'" "values' s' = values' t" "unat (index s') < length (values' s')"
    by auto
  with t show ?case by simp
qed

text \<open>
  C8. For an IPSet built by \<^verbatim>\<open>newIPSet\<close> from a non-empty address list, any number
  \<open>n\<close> of \<^verbatim>\<open>Next()\<close> calls returns normally, leaves the cursor a valid index
  (\<open>0 \<le> index < len(values)\<close>), leaves the address list the one given at construction,
  and \<^verbatim>\<open>Current()\<close> then returns an element of that list.
\<close>

theorem IPSet_cursor_invariant:
  assumes "ips \<noteq> []"
  shows "\<exists>s. Next_times n (newIPSet ips) = Some s
           \<and> unat (index s) < length (values' s)
           \<and> values' s = ips
           \<and> (\<exists>ip. Current s = Some ip \<and> ip \<in> set ips)"
proof -
  have "values' (newIPSet ips) \<noteq> []" "unat (index (newIPSet ips)) < length (values' (newIPSet ips))"
    using assms by (simp_all add: newIPSet_def)
  from Next_times_inv [OF this, of n] obtain s where
    s: "Next_times n (newIPSet ips) = Some s" "values' s = values' (newIPSet ips)"
       "unat (index s) < length (values' s)"
    by blast
  then have v: "values' s = ips" by (simp add: newIPSet_def)
  with s(3) have "Current s = Some (ips ! unat (index s))" "ips ! unat (index s) \<in> set ips"
    by (simp_all add: Current_def Let_def)
  with s v show ?thesis by blast
qed

theorem IPSet_cursor_invariant_witness:
  "[[1, 1, 1, 1], [8, 8, 8, 8 :: 8 word]] \<noteq> []
   \<and> (\<exists>s. Next_times 3 (newIPSet [[1, 1, 1, 1], [8, 8, 8, 8]]) = Some s
           \<and> unat (index s) < length (values' s)
           \<and> values' s = [[1, 1, 1, 1], [8, 8, 8, 8]]
           \<and> (\<exists>ip. Current s = Some ip \<and> ip \<in> set [[1, 1, 1, 1], [8, 8, 8, 8]]))"
  using IPSet_cursor_invariant [of "[[1, 1, 1, 1], [8, 8, 8, 8]]" 3] by simp

text \<open>
  \<^verbatim>\<open>newIPSet\<close> itself checks nothing: \<^verbatim>\<open>Current()\<close> on a fresh IPSet returns the first
  address of the list it was built from, and indexes out of range when that list is
  empty. The list is kept from being empty where the sets are built, in
  \<^verbatim>\<open>UpstreamIPs\<close> (see below).
\<close>

lemma Current_newIPSet:
  "Current (newIPSet ips) = (case ips of [] \<Rightarrow> None | ip # _ \<Rightarrow> Some ip)"
  by (simp add: newIPSet_def Current_def split: list.split)

subsection \<open>Resolving host names through the Bootstrap\<close>

text \<open>
  C6. When the host of the upstream parses as a literal IP, \<^verbatim>\<open>UpstreamIPs\<close> returns
  the singleton IPSet of that IP, and \<^verbatim>\<open>resolveType\<close> returns that IP for any record
  type. Neither resolves anything: the result is the same for every Bootstrap (a nil one
  too, for \<^verbatim>\<open>UpstreamIPs\<close>), whatever its chain and system resolver are, and the state
  of the world is left as it was.
\<close>

theorem literal_IP_needs_no_resolution:
  assumes "ParseIP c (Host (upstream r)) = Some ip"
  shows "UpstreamIPs c cfg b r s = (Return (Some \<lparr>values' = [ip], index = 0\<rparr>, None), s)
       \<and> resolveType c b' (Host (upstream r)) qType s = (Return ([ip], None), s)"
  using assms by (simp add: UpstreamIPs_def resolveType_def newIPSet_def)

theorem literal_IP_needs_no_resolution_witness:
  "ParseIP test_Collab (Host (upstream
      \<lparr>addr = 7, upstream = \<lparr>Net = NetProtocolTcpTls, Host = ''1.1.1.1'', Port = 853, Path = []\<rparr>\<rparr>))
     = Some [0, 0, 0, 0, 0, 0, 0, 0, 0, 0, 255, 255, 1, 1, 1, 1]
   \<and> UpstreamIPs test_Collab test_Config None
        \<lparr>addr = 7, upstream = \<lparr>Net = NetProtocolTcpTls, Host = ''1.1.1.1'', Port = 853, Path = []\<rparr>\<rparr> 0
       = (Return (Some \<lparr>values' = [[0, 0, 0, 0, 0, 0, 0, 0, 0, 0, 255, 255, 1, 1, 1, 1]], index = 0\<rparr>,
                  None), 0)
   \<and> resolveType test_Collab test_Bootstrap ''1.1.1.1'' TypeAAAA 0
       = (Return ([[0, 0, 0, 0, 0, 0, 0, 0, 0, 0, 255, 255, 1, 1, 1, 1]], None), 0)"
  using literal_IP_needs_no_resolution [of test_Collab
      "\<lparr>addr = 7, upstream = \<lparr>Net = NetProtocolTcpTls, Host = ''1.1.1.1'', Port = 853, Path = []\<rparr>\<rparr>"
      "[0, 0, 0, 0, 0, 0, 0, 0, 0, 0, 255, 255, 1, 1, 1, 1]" test_Config None 0 test_Bootstrap TypeAAAA]
  by (simp add: test_Collab_def test_ParseIP_def)

text \<open>
  C5. In a configured Bootstrap (its \<^verbatim>\<open>resolver\<close> is set), \<^verbatim>\<open>resolveUpstream\<close> for a
  resolver that is a key of \<^verbatim>\<open>bootstraped\<close> returns the address list stored under that
  key and no error. The chain is not entered: the result does not depend on it, and the
  state of the world is left as it was.
\<close>

theorem resolveUpstream_short_circuit:
  assumes "resolver b = Some chain" and "map_of (bootstraped b) r = Some ips"
  shows "resolveUpstream c cfg b r host s = (Return (ips, None), s)"
  using assms by (simp add: resolveUpstream_def)

theorem resolveUpstream_short_circuit_witness:
  "resolver test_Bootstrap = Some (test_upstream (test_answer [A [9, 9, 9, 9]]))
   \<and> map_of (bootstraped test_Bootstrap) 2 = Some [[8, 8, 8, 8], [8, 8, 4, 4]]
   \<and> resolveUpstream test_Collab test_Config test_Bootstrap 2 ''dns.google'' 0
       = (Return ([[8, 8, 8, 8], [8, 8, 4, 4]], None), 0)"
  using resolveUpstream_short_circuit [of test_Bootstrap "test_upstream (test_answer [A [9, 9, 9, 9]])" 2
      "[[8, 8, 8, 8], [8, 8, 4, 4]]" test_Collab test_Config "''dns.google''" 0]
  by (simp add: test_Bootstrap_def)

lemma resolveType_loop_address_records:
  "resolveType_loop answer ips = ips @ address_records answer"
  by (induction answer arbitrary: ips) (auto simp: address_records_def split: dns_RR.splits)

text \<open>
  C7. For a host name that is not a literal IP, in a configured Bootstrap,
  \<^verbatim>\<open>resolveType\<close> asks the chain once with the single-question request: an error of
  the chain is returned as the error; a response with a non-success rcode gives the empty
  list and no error; any other response gives exactly the addresses of the A and AAAA
  records of its answer section, in order, and no error. (A nil response with a nil error
  makes the code panic.)
\<close>

theorem resolveType_hostname:
  assumes "ParseIP c hostname = None"
    and "resolver b = Some chain"
    and "chain \<lparr>Req = NewMsgWithQuestion c hostname qType\<rparr> s = ((req', rsp, e), s')"
  shows "resolveType c b hostname qType s =
           (case e of
              Some chainErr \<Rightarrow> (Return ([], Some chainErr), s')
            | None \<Rightarrow>
                (case rsp of
                   None \<Rightarrow> (Panic, s')
                 | Some r \<Rightarrow>
                     (Return (if Rcode (Res r) \<noteq> RcodeSuccess then []
                              else address_records (Answer (Res r)), None), s')))"
  using assms
  by (simp add: resolveType_def resolveType_loop_address_records split: option.splits)

theorem resolveType_hostname_witness:
  "ParseIP test_Collab ''dns.google'' = None
   \<and> resolver (test_Bootstrap\<lparr>resolver := Some (test_upstream test_mixed_answer)\<rparr>)
       = Some (test_upstream test_mixed_answer)
   \<and> test_upstream test_mixed_answer \<lparr>Req = NewMsgWithQuestion test_Collab ''dns.google'' TypeA\<rparr> 0
       = ((\<lparr>Req = NewMsgWithQuestion test_Collab ''dns.google'' TypeA\<rparr>,
           fst (test_mixed_answer \<lparr>Name = ''dns.google.'', Qtype = TypeA\<rparr>), None), 1)
   \<and> resolveType test_Collab (test_Bootstrap\<lparr>resolver := Some (test_upstream test_mixed_answer)\<rparr>)
        ''dns.google'' TypeA 0
       = (Return ([[8, 8, 8, 8], [32, 1, 72, 96, 72, 96, 0, 0, 0, 0, 0, 0, 0, 0, 136, 136],
                   [8, 8, 4, 4]], None), 1)"
proof -
  have p: "ParseIP test_Collab ''dns.google'' = None"
    by (simp add: test_Collab_def test_ParseIP_def)
  have r: "resolver (test_Bootstrap\<lparr>resolver := Some (test_upstream test_mixed_answer)\<rparr>)
       = Some (test_upstream test_mixed_answer)"
    by simp
  have ch: "test_upstream test_mixed_answer \<lparr>Req = NewMsgWithQuestion test_Collab ''dns.google'' TypeA\<rparr> 0
       = ((\<lparr>Req = NewMsgWithQuestion test_Collab ''dns.google'' TypeA\<rparr>,
           fst (test_mixed_answer \<lparr>Name = ''dns.google.'', Qtype = TypeA\<rparr>), None), 1)"
    by (simp add: test_upstream_def test_Collab_def util_NewMsgWithQuestion_def dns_Fqdn_def
        test_mixed_answer_def test_answer_def)
  from resolveType_hostname [OF p r ch] p r ch show ?thesis
    by (simp add: test_mixed_answer_def test_answer_def address_records_def RcodeSuccess_def)
qed

text \<open>
  C2, as stated, fails: when the A query errors and the AAAA query yields one address,
  \<^verbatim>\<open>resolve\<close> returns that address together with a non-nil error, the multi-error
  holding the error of the A query.
\<close>

theorem resolve_partial_success_returns_error:
  "resolve test_Collab (test_Bootstrap\<lparr>resolver := Some (test_upstream test_A_fails)\<rparr>)
      ''one.one.one.one'' [TypeA, TypeAAAA] 0
   = (Return ([[38, 6, 71, 0, 71, 0, 0, 0, 0, 0, 0, 0, 0, 0, 17, 17]],
              Some (MultiError [CollabError ''i/o timeout''])), 2)"
  by (simp add: resolve_def resolveType_def test_Collab_def test_ParseIP_def test_Bootstrap_def
      test_upstream_def test_A_fails_def test_answer_def util_NewMsgWithQuestion_def RcodeSuccess_def)

text \<open>
  C2, amended. \<^verbatim>\<open>resolve(hostname, [A, AAAA])\<close> returns the addresses of the record
  types whose query did not error, together with the aggregate of the per-type errors.
  The error is nil only when no query errored and at least one address was obtained.
  When a query errored, the multi-error of the per-type errors is returned, along with
  the addresses the other type yielded, if any. When no query errored and no address was
  obtained, the result is no address and a "no such host" error.
\<close>

theorem resolve_A_AAAA:
  assumes "resolveType c b hostname TypeA s = (Return (ips4, e4), s1)"
    and "resolveType c b hostname TypeAAAA s1 = (Return (ips6, e6), s2)"
  shows "resolve c b hostname [TypeA, TypeAAAA] s =
           (Return
              (case (e4, e6) of
                 (None, None) \<Rightarrow>
                   if ips4 @ ips6 = [] then ([], Some (NoSuchHost hostname)) else (ips4 @ ips6, None)
               | (Some qErr4, None) \<Rightarrow> (ips6, Some (MultiError (multierror_flatten qErr4)))
               | (None, Some qErr6) \<Rightarrow> (ips4, Some (MultiError (multierror_flatten qErr6)))
               | (Some qErr4, Some qErr6) \<Rightarrow>
                   ([], Some (MultiError (multierror_flatten qErr4 @ multierror_flatten qErr6)))),
            s2)"
  using assms by (simp add: resolve_def split: option.splits)

theorem resolve_A_AAAA_witness:
  "resolveType test_Collab (test_Bootstrap\<lparr>resolver := Some (test_upstream test_mixed_answer)\<rparr>)
      ''dns.google'' TypeA 0
       = (Return ([[8, 8, 8, 8], [32, 1, 72, 96, 72, 96, 0, 0, 0, 0, 0, 0, 0, 0, 136, 136],
                   [8, 8, 4, 4]], None), 1)
   \<and> resolveType test_Collab (test_Bootstrap\<lparr>resolver := Some (test_upstream test_mixed_answer)\<rparr>)
      ''dns.google'' TypeAAAA 1
       = (Return ([[8, 8, 8, 8], [32, 1, 72, 96, 72, 96, 0, 0, 0, 0, 0, 0, 0, 0, 136, 136],
                   [8, 8, 4, 4]], None), 2)
   \<and> resolve test_Collab (test_Bootstrap\<lparr>resolver := Some (test_upstream test_mixed_answer)\<rparr>)
      ''dns.google'' [TypeA, TypeAAAA] 0
       = (Return ([[8, 8, 8, 8], [32, 1, 72, 96, 72, 96, 0, 0, 0, 0, 0, 0, 0, 0, 136, 136],
                   [8, 8, 4, 4],
                   [8, 8, 8, 8], [32, 1, 72, 96, 72, 96, 0, 0, 0, 0, 0, 0, 0, 0, 136, 136],
                   [8, 8, 4, 4]], None), 2)"
proof -
  let ?b = "test_Bootstrap\<lparr>resolver := Some (test_upstream test_mixed_answer)\<rparr>"
  have a: "resolveType test_Collab ?b ''dns.google'' TypeA 0
       = (Return ([[8, 8, 8, 8], [32, 1, 72, 96, 72, 96, 0, 0, 0, 0, 0, 0, 0, 0, 136, 136],
                   [8, 8, 4, 4]], None), 1)"
    by (simp add: resolveType_def test_Collab_def test_ParseIP_def test_Bootstrap_def
        test_upstream_def test_mixed_answer_def test_answer_def util_NewMsgWithQuestion_def
        RcodeSuccess_def)
  have b: "resolveType test_Collab ?b ''dns.google'' TypeAAAA 1
       = (Return ([[8, 8, 8, 8], [32, 1, 72, 96, 72, 96, 0, 0, 0, 0, 0, 0, 0, 0, 136, 136],
                   [8, 8, 4, 4]], None), 2)"
    by (simp add: resolveType_def test_Collab_def test_ParseIP_def test_Bootstrap_def
        test_upstream_def test_mixed_answer_def test_answer_def util_NewMsgWithQuestion_def
        RcodeSuccess_def)
  from resolve_A_AAAA [OF a b] a b show ?thesis by simp
qed

subsection \<open>Constructing the Bootstrap\<close>

lemma multierror_Append_flatten:
  "multierror_Append me e =
     MultiError ((case me of None \<Rightarrow> [] | Some e0 \<Rightarrow> multierror_flatten e0) @ multierror_flatten e)"
  by (cases "(me, e)" rule: multierror_Append.cases) simp_all

text \<open>One round of the loop, in terms of the validation error of the entry.\<close>

lemma newBootstrapedResolvers_loop_step:
  "newBootstrapedResolvers_loop c i0 (x # xs) m me =
     (case item_error c (i0 + 1) x of
        Some e \<Rightarrow> newBootstrapedResolvers_loop c (i0 + 1) xs m (Some (multierror_Append me e))
      | None \<Rightarrow> newBootstrapedResolvers_loop c (i0 + 1) xs
                  (m @ [(i0 + 1, if Net (Upstream x) = NetProtocolTcpUdp
                                 then [the (ParseIP c (Host (Upstream x)))] else IPs x)]) me)"
  by (simp add: item_error_def Let_def newUpstreamResolverUnchecked_def split: option.splits)

lemma item_error_flatten:
  "item_error c i x = Some e \<Longrightarrow> multierror_flatten e = [e]"
  by (auto simp: item_error_def split: if_splits)

lemma newBootstrapedResolvers_loop_err:
  "snd (newBootstrapedResolvers_loop c i0 cfg m me) =
     (if item_errors c i0 cfg = [] then me
      else Some (MultiError ((case me of None \<Rightarrow> [] | Some e0 \<Rightarrow> multierror_flatten e0)
                             @ item_errors c i0 cfg)))"
proof (induction cfg arbitrary: i0 m me)
  case Nil
  then show ?case by simp
next
  case (Cons x xs)
  show ?case
  proof (cases "item_error c (i0 + 1) x")
    case None
    then show ?thesis
      by (simp add: newBootstrapedResolvers_loop_step Cons.IH
          del: newBootstrapedResolvers_loop.simps)
  next
    case (Some e)
    then show ?thesis
      by (simp add: newBootstrapedResolvers_loop_step Cons.IH multierror_Append_flatten
          item_error_flatten del: newBootstrapedResolvers_loop.simps)
  qed
qed

text \<open>Whether an entry is invalid does not depend on its index.\<close>

lemma invalid_item_iff:
  "invalid_item c x = (item_error c i x \<noteq> None)"
  by (simp add: invalid_item_def item_error_def)

lemma item_errors_empty_iff:
  "(item_errors c i0 cfg = []) = (\<forall>x \<in> set cfg. \<not> invalid_item c x)"
proof (induction cfg arbitrary: i0)
  case Nil
  then show ?case by simp
next
  case (Cons x xs)
  show ?case
    using Cons.IH [of "i0 + 1"] invalid_item_iff [of c x "i0 + 1"]
    by (cases "item_error c (i0 + 1) x") simp_all
qed

lemma length_item_errors:
  "length (item_errors c i0 cfg) = length (filter (invalid_item c) cfg)"
proof (induction cfg arbitrary: i0)
  case Nil
  then show ?case by simp
next
  case (Cons x xs)
  show ?case
    using Cons.IH [of "i0 + 1"] invalid_item_iff [of c x "i0 + 1"]
    by (cases "item_error c (i0 + 1) x") simp_all
qed

lemma item_errors_member:
  "i < length cfg \<Longrightarrow> item_error c (i0 + i + 1) (cfg ! i) = Some e \<Longrightarrow> e \<in> set (item_errors c i0 cfg)"
proof (induction cfg arbitrary: i0 i)
  case Nil
  then show ?case by simp
next
  case (Cons x xs)
  show ?case
  proof (cases i)
    case 0
    with Cons.prems show ?thesis by simp
  next
    case (Suc k)
    with Cons.prems have "k < length xs" "item_error c (Suc i0 + k + 1) (xs ! k) = Some e"
      by simp_all
    from Cons.IH [OF this] show ?thesis by (simp split: option.splits)
  qed
qed

lemma newBootstrapedResolvers_invalid:
  assumes "item_errors c 0 cfg \<noteq> []"
  shows "newBootstrapedResolvers c cfg =
           (None, Some (InvalidBootstrapDns (MultiError (item_errors c 0 cfg))))"
proof -
  obtain m me where l: "newBootstrapedResolvers_loop c 0 cfg [] None = (m, me)"
    by (cases "newBootstrapedResolvers_loop c 0 cfg [] None")
  with newBootstrapedResolvers_loop_err [of c 0 cfg "[]" None] assms
  have "me = Some (MultiError (item_errors c 0 cfg))" by simp
  with l show ?thesis by (simp add: newBootstrapedResolvers_def)
qed

text \<open>
  The valid configuration of the concrete runs: construction succeeds, and
  \<^verbatim>\<open>bootstraped\<close> has the two entries with the declared address lists.
\<close>

lemma NewBootstrap_test_Config:
  "NewBootstrap test_Collab test_Config = (Some test_Bootstrap, None)"
  by (simp add: NewBootstrap_def newBootstrapedResolvers_def test_Config_def test_Bootstrap_def
      test_Collab_def test_ParseIP_def config_IsDefault_def newUpstreamResolverUnchecked_def
      ResolverGroups_def Let_def)

text \<open>
  C3. When the bootstrap configuration has at least one invalid entry (an unconfigured
  upstream, a TCP/UDP upstream whose host is not a literal IP, or an upstream of another
  protocol with no hardcoded IPs), \<^verbatim>\<open>newBootstrapedResolvers\<close> returns a nil map and
  \<^verbatim>\<open>NewBootstrap\<close> a nil Bootstrap, both with the one error that wraps the multi-error
  of the validation errors: one error per invalid entry, in the order of the entries,
  each with the 1-based index of its entry.
\<close>

theorem NewBootstrap_atomic_validation:
  assumes "\<exists>x \<in> set (BootstrapDNS cfg). invalid_item c x"
  shows "newBootstrapedResolvers c (BootstrapDNS cfg)
           = (None, Some (InvalidBootstrapDns (MultiError (item_errors c 0 (BootstrapDNS cfg)))))
       \<and> NewBootstrap c cfg
           = (None, Some (InvalidBootstrapDns (MultiError (item_errors c 0 (BootstrapDNS cfg)))))
       \<and> length (item_errors c 0 (BootstrapDNS cfg)) = length (filter (invalid_item c) (BootstrapDNS cfg))
       \<and> (\<forall>i < length (BootstrapDNS cfg). \<forall>e. item_error c (i + 1) (BootstrapDNS cfg ! i) = Some e
             \<longrightarrow> e \<in> set (item_errors c 0 (BootstrapDNS cfg)))"
proof -
  from assms have ne: "item_errors c 0 (BootstrapDNS cfg) \<noteq> []"
    by (simp add: item_errors_empty_iff)
  note inv = newBootstrapedResolvers_invalid [OF ne]
  have "NewBootstrap c cfg
          = (None, Some (InvalidBootstrapDns (MultiError (item_errors c 0 (BootstrapDNS cfg)))))"
    by (simp add: NewBootstrap_def inv)
  moreover have "\<forall>i < length (BootstrapDNS cfg). \<forall>e. item_error c (i + 1) (BootstrapDNS cfg ! i) = Some e
             \<longrightarrow> e \<in> set (item_errors c 0 (BootstrapDNS cfg))"
    using item_errors_member [of _ "BootstrapDNS cfg" c 0] by simp
  ultimately show ?thesis using inv length_item_errors [of c 0 "BootstrapDNS cfg"] by blast
qed

theorem NewBootstrap_atomic_validation_witness:
  "(\<exists>x \<in> set (BootstrapDNS test_bad_Config). invalid_item test_Collab x)
   \<and> (1 < length (BootstrapDNS test_bad_Config)
        \<and> item_error test_Collab (1 + 1) (BootstrapDNS test_bad_Config ! 1)
            = Some (ItemMustUseIP 2 \<lparr>Net = NetProtocolTcpUdp, Host = ''dns.google'', Port = 53, Path = []\<rparr>
                      NetProtocolTcpUdp))
   \<and> NewBootstrap test_Collab test_bad_Config =
       (None, Some (InvalidBootstrapDns (MultiError
          [ItemMustUseIP 2 \<lparr>Net = NetProtocolTcpUdp, Host = ''dns.google'', Port = 53, Path = []\<rparr>
             NetProtocolTcpUdp,
           ItemRequiresIPs 3 \<lparr>Net = NetProtocolHttps, Host = ''dns.google'', Port = 443,
             Path = ''/dns-query''\<rparr> NetProtocolHttps])))"
proof -
  have h: "\<exists>x \<in> set (BootstrapDNS test_bad_Config). invalid_item test_Collab x"
    by (simp add: test_bad_Config_def invalid_item_def item_error_def test_Collab_def
        test_ParseIP_def config_IsDefault_def)
  have i: "1 < length (BootstrapDNS test_bad_Config)
        \<and> item_error test_Collab (1 + 1) (BootstrapDNS test_bad_Config ! 1)
            = Some (ItemMustUseIP 2 \<lparr>Net = NetProtocolTcpUdp, Host = ''dns.google'', Port = 53, Path = []\<rparr>
                      NetProtocolTcpUdp)"
    by (simp add: test_bad_Config_def item_error_def test_Collab_def
        test_ParseIP_def config_IsDefault_def)
  have e: "item_errors test_Collab 0 (BootstrapDNS test_bad_Config) =
          [ItemMustUseIP 2 \<lparr>Net = NetProtocolTcpUdp, Host = ''dns.google'', Port = 53, Path = []\<rparr>
             NetProtocolTcpUdp,
           ItemRequiresIPs 3 \<lparr>Net = NetProtocolHttps, Host = ''dns.google'', Port = 443,
             Path = ''/dns-query''\<rparr> NetProtocolHttps]"
    by (simp add: test_bad_Config_def item_error_def test_Collab_def
        test_ParseIP_def config_IsDefault_def)
  from NewBootstrap_atomic_validation [OF h] h i e show ?thesis by simp
qed

lemma NewBootstrap_unconfigured:
  assumes "BootstrapDNS cfg = []"
  shows "NewBootstrap c cfg =
           (Some \<lparr>resolver = None, bootstraped = [], systemResolver = DefaultResolver c\<rparr>, None)"
  using assms by (simp add: NewBootstrap_def newBootstrapedResolvers_def)

text \<open>
  C10. For an unconfigured Bootstrap (its \<^verbatim>\<open>resolver\<close> is nil, as it is after
  \<^verbatim>\<open>NewBootstrap\<close> with no bootstrap DNS entries), \<^verbatim>\<open>NewHTTPTransport\<close> returns the
  zero transport: it has no dial hook, so nothing of the Bootstrap, the system-resolver
  path of \<^verbatim>\<open>resolveUpstream\<close> included, takes part in a dial.
\<close>

theorem unconfigured_Bootstrap_transport:
  assumes "resolver b = None"
  shows "NewHTTPTransport c cfg b = \<lparr>DialContext = None\<rparr>"
  using assms by (simp add: NewHTTPTransport_def)

theorem unconfigured_Bootstrap_transport_witness:
  "resolver \<lparr>resolver = None, bootstraped = [], systemResolver = DefaultResolver test_Collab\<rparr> = None
   \<and> NewBootstrap test_Collab (test_Config\<lparr>BootstrapDNS := []\<rparr>)
       = (Some \<lparr>resolver = None, bootstraped = [], systemResolver = DefaultResolver test_Collab\<rparr>, None)
   \<and> NewHTTPTransport test_Collab (test_Config\<lparr>BootstrapDNS := []\<rparr>)
        \<lparr>resolver = None, bootstraped = [], systemResolver = DefaultResolver test_Collab\<rparr>
       = \<lparr>DialContext = None\<rparr>"
  using unconfigured_Bootstrap_transport [of
      "\<lparr>resolver = None, bootstraped = [], systemResolver = DefaultResolver test_Collab\<rparr>"
      test_Collab "test_Config\<lparr>BootstrapDNS := []\<rparr>"]
  by (simp add: NewBootstrap_unconfigured)

subsection \<open>The IPSets that UpstreamIPs builds\<close>

text \<open>Every list stored in \<^verbatim>\<open>bootstraped\<close> by the construction is non-empty.\<close>

lemma newBootstrapedResolvers_loop_nonempty:
  "\<forall>kv \<in> set m. snd kv \<noteq> [] \<Longrightarrow>
   \<forall>kv \<in> set (fst (newBootstrapedResolvers_loop c i0 cfg m me)). snd kv \<noteq> []"
proof (induction cfg arbitrary: i0 m me)
  case Nil
  then show ?case by simp
next
  case (Cons x xs)
  show ?case
  proof (cases "item_error c (i0 + 1) x")
    case (Some e)
    with Cons.IH [OF Cons.prems] show ?thesis
      by (simp add: newBootstrapedResolvers_loop_step del: newBootstrapedResolvers_loop.simps)
  next
    case None
    let ?ips = "if Net (Upstream x) = NetProtocolTcpUdp
                then [the (ParseIP c (Host (Upstream x)))] else IPs x"
    from None have "?ips \<noteq> []"
      by (auto simp: item_error_def split: if_splits)
    with Cons.prems have "\<forall>kv \<in> set (m @ [(i0 + 1, ?ips)]). snd kv \<noteq> []"
      by auto
    from Cons.IH [OF this] None show ?thesis
      by (simp add: newBootstrapedResolvers_loop_step del: newBootstrapedResolvers_loop.simps)
  qed
qed

lemma NewBootstrap_lists_nonempty:
  assumes "NewBootstrap c cfg = (Some b, None)"
  shows "(\<forall>kv \<in> set (bootstraped b). snd kv \<noteq> []) \<and> systemResolver b = DefaultResolver c"
proof -
  have l: "\<forall>kv \<in> set (fst (newBootstrapedResolvers_loop c 0 (BootstrapDNS cfg) [] None)). snd kv \<noteq> []"
    by (rule newBootstrapedResolvers_loop_nonempty) simp
  obtain m me where lm: "newBootstrapedResolvers_loop c 0 (BootstrapDNS cfg) [] None = (m, me)"
    by (cases "newBootstrapedResolvers_loop c 0 (BootstrapDNS cfg) [] None")
  with l have m: "\<forall>kv \<in> set m. snd kv \<noteq> []" by simp
  from assms lm m show ?thesis
    by (auto simp: NewBootstrap_def newBootstrapedResolvers_def Let_def
        split: option.splits if_splits sum.splits)
qed

text \<open>\<^verbatim>\<open>resolve\<close> returns a nil error only with at least one address.\<close>

lemma resolve_ok_nonempty:
  "resolve c b hostname qTypes s = (Return (ips, None), s') \<Longrightarrow> ips \<noteq> []"
  by (auto simp: resolve_def split: prod.splits outcome.splits if_splits)

lemma resolveUpstream_ok_nonempty:
  assumes "\<forall>kv \<in> set (bootstraped b). snd kv \<noteq> []"
    and "\<And>ctx v h s ips s1. systemResolver b ctx v h s = ((ips, None), s1) \<Longrightarrow> ips \<noteq> []"
    and "resolveUpstream c cfg b r host s = (Return (ips, None), s')"
  shows "ips \<noteq> []"
proof (cases "resolver b")
  case None
  with assms(3) obtain ctx where "systemResolver b ctx (ConnectIPVersion cfg) host s = ((ips, None), s')"
    by (auto simp: resolveUpstream_def Let_def split: prod.splits)
  from assms(2) [OF this] show ?thesis .
next
  case (Some chain)
  show ?thesis
  proof (cases "map_of (bootstraped b) r")
    case None
    with Some assms(3) have "resolve c b host v4v6QTypes s = (Return (ips, None), s')"
      by (simp add: resolveUpstream_def)
    then show ?thesis by (rule resolve_ok_nonempty)
  next
    case (Some stored)
    with \<open>resolver b = Some chain\<close> assms(3) have "ips = stored"
      by (simp add: resolveUpstream_def)
    moreover from Some have "(r, stored) \<in> set (bootstraped b)" by (rule map_of_SomeD)
    ultimately show ?thesis using assms(1) by auto
  qed
qed

text \<open>
  C9. An IPSet is built by \<^verbatim>\<open>newIPSet\<close> in \<^verbatim>\<open>UpstreamIPs\<close> only, and non-emptiness is
  enforced there, where the set is constructed: from a literal IP the list is a
  singleton; from \<^verbatim>\<open>resolveUpstream\<close> the list is used only when the error is nil, and
  then it is a validated list of \<^verbatim>\<open>bootstraped\<close>, or a result of \<^verbatim>\<open>resolve\<close>, which
  turns an empty result into "no such host", or a result of the system resolver. So for
  a Bootstrap made by \<^verbatim>\<open>NewBootstrap\<close> (or a nil one), with a system resolver that
  returns an error and not an empty list when it finds nothing, as
  \<^verbatim>\<open>net.Resolver.LookupIP\<close> does, every IPSet that \<^verbatim>\<open>UpstreamIPs\<close> returns has a
  non-empty list, and \<^verbatim>\<open>Current()\<close> never fails on it, at once or after any number of
  \<^verbatim>\<open>Next()\<close> calls.
\<close>

theorem UpstreamIPs_Current_never_fails:
  assumes "NewBootstrap c cfg0 = (Some b, None)"
    and "\<not> (\<exists>ctx v h s s1. DefaultResolver c ctx v h s = (([], None), s1))"
    and "bopt = None \<or> bopt = Some b"
    and "UpstreamIPs c cfg bopt r s = (Return (Some ipset, None), s')"
  shows "values' ipset \<noteq> []
       \<and> (\<exists>ip. Current ipset = Some ip)
       \<and> (\<exists>t. Next_times n ipset = Some t \<and> (\<exists>ip. Current t = Some ip \<and> ip \<in> set (values' ipset)))"
proof -
  note nb = NewBootstrap_lists_nonempty [OF assms(1)]
  have "\<exists>ips. ipset = newIPSet ips \<and> ips \<noteq> []"
  proof (cases "ParseIP c (Host (upstream r))")
    case (Some ip)
    with assms(4) have "ipset = newIPSet [ip]" by (simp add: UpstreamIPs_def)
    then show ?thesis by blast
  next
    case None
    with assms(3,4) have bb: "bopt = Some b" by (auto simp: UpstreamIPs_def)
    with None assms(4) obtain ips where
      ru: "resolveUpstream c cfg b (addr r) (Host (upstream r)) s = (Return (ips, None), s')"
      and i: "ipset = newIPSet ips"
      by (auto simp: UpstreamIPs_def split: prod.splits outcome.splits option.splits)
    have "ips \<noteq> []"
    proof (rule resolveUpstream_ok_nonempty [OF _ _ ru])
      from nb show "\<forall>kv \<in> set (bootstraped b). snd kv \<noteq> []" by simp
    next
      fix ctx v h s ips s1
      assume "systemResolver b ctx v h s = ((ips, None), s1)"
      with nb have "DefaultResolver c ctx v h s = ((ips, None), s1)" by simp
      with assms(2) show "ips \<noteq> []" by blast
    qed
    with i show ?thesis by blast
  qed
  then obtain ips where i: "ipset = newIPSet ips" and ne: "ips \<noteq> []" by blast
  then have v: "values' ipset \<noteq> []" and x: "unat (index ipset) < length (values' ipset)"
    by (simp_all add: newIPSet_def)
  from Next_times_inv [OF v x, of n] obtain t where
    t: "Next_times n ipset = Some t" "values' t = values' ipset" "unat (index t) < length (values' t)"
    by blast
  then have "Current t = Some (values' ipset ! unat (index t))"
    "values' ipset ! unat (index t) \<in> set (values' ipset)"
    by (simp_all add: Current_def Let_def)
  moreover from v x have "Current ipset = Some (values' ipset ! unat (index ipset))"
    by (simp add: Current_def Let_def)
  ultimately show ?thesis using v t(1) by blast
qed

theorem UpstreamIPs_Current_never_fails_witness:
  "NewBootstrap test_Collab test_Config = (Some test_Bootstrap, None)
   \<and> \<not> (\<exists>ctx v h s s1. DefaultResolver test_Collab ctx v h s = (([], None), s1))
   \<and> (Some test_Bootstrap = None \<or> Some test_Bootstrap = Some test_Bootstrap)
   \<and> UpstreamIPs test_Collab test_Config (Some test_Bootstrap)
        \<lparr>addr = 9, upstream = \<lparr>Net = NetProtocolTcpTls, Host = ''dns.quad9.net'', Port = 853, Path = []\<rparr>\<rparr> 0
       = (Return (Some \<lparr>values' = [[9, 9, 9, 9], [9, 9, 9, 9]], index = 0\<rparr>, None), 2)
   \<and> Current \<lparr>values' = [[9, 9, 9, 9], [9, 9, 9, 9]], index = 0\<rparr> = Some [9, 9, 9, 9]
   \<and> (\<exists>t. Next_times 3 \<lparr>values' = [[9, 9, 9, 9], [9, 9, 9, 9]], index = 0\<rparr> = Some t
          \<and> (\<exists>ip. Current t = Some ip \<and> ip \<in> set [[9, 9, 9, 9], [9, 9, 9, 9 :: 8 word]]))"
proof -
  have d: "\<not> (\<exists>ctx v h s s1. DefaultResolver test_Collab ctx v h s = (([], None), s1))"
    by (simp add: test_Collab_def)
  have u: "UpstreamIPs test_Collab test_Config (Some test_Bootstrap)
        \<lparr>addr = 9, upstream = \<lparr>Net = NetProtocolTcpTls, Host = ''dns.quad9.net'', Port = 853, Path = []\<rparr>\<rparr> 0
       = (Return (Some \<lparr>values' = [[9, 9, 9, 9], [9, 9, 9, 9]], index = 0\<rparr>, None), 2)"
    by (simp add: UpstreamIPs_def resolveUpstream_def resolve_def resolveType_def v4v6QTypes_def
        test_Collab_def test_ParseIP_def test_Bootstrap_def test_upstream_def test_answer_def
        util_NewMsgWithQuestion_def RcodeSuccess_def newIPSet_def)
  have c: "Current \<lparr>values' = [[9, 9, 9, 9], [9, 9, 9, 9]], index = 0\<rparr> = Some [9, 9, 9, 9]"
    by (simp add: Current_def)
  from UpstreamIPs_Current_never_fails [OF NewBootstrap_test_Config d _ u, where n = 3]
    NewBootstrap_test_Config d u c
  show ?thesis by simp
qed

subsection \<open>Conditional upstreams\<close>

text \<open>The loop tries the candidates of the domain in order and stops at the first hit.\<close>

lemma processRequest_loop_first_hit:
  "processRequest_loop c r dfq d req s =
     (case first_hit (mapping r) (label_suffixes d) of
        Some (x, reso) \<Rightarrow>
          (case internalResolve c reso dfq x req s of
             (Panic, s1) \<Rightarrow> (Panic, s1)
           | (Return (req1, resp, err), s1) \<Rightarrow> (Return (True, req1, resp, err), s1))
      | None \<Rightarrow> (Return (False, req, None, None), s))"
proof (induction c r dfq d req s rule: processRequest_loop.induct)
  case (1 c r dfq domain request s)
  show ?case
  proof (cases "domain = []")
    case True
    then show ?thesis
      by (subst processRequest_loop.simps, subst label_suffixes.simps) simp
  next
    case False
    show ?thesis
    proof (cases "map_of (mapping r) domain")
      case (Some reso)
      with False show ?thesis
        by (subst processRequest_loop.simps, subst label_suffixes.simps) simp
    next
      case None
      note miss = this
      show ?thesis
      proof (cases "Index_dot domain")
        case None
        with False miss show ?thesis
          by (subst processRequest_loop.simps, subst label_suffixes.simps) simp
      next
        case (Some i)
        from False have "0 < length domain" by simp
        from "1.IH" [OF this miss Some] False miss Some show ?thesis
          by (subst processRequest_loop.simps, subst label_suffixes.simps) simp
      qed
    qed
  qed
qed

lemma first_hit_empty: "first_hit [] xs = None"
  by (induction xs) simp_all

lemma processRequest_by_match:
  assumes "Question (Req req) = q # qs"
  shows "processRequest c r req s =
     (case match_domain (mapping r) (ExtractDomain c q) of
        Some (x, reso) \<Rightarrow>
          (case internalResolve c reso (ExtractDomain c q) x req s of
             (Panic, s1) \<Rightarrow> (Panic, s1)
           | (Return (req1, resp, err), s1) \<Rightarrow> (Return (True, req1, resp, err), s1))
      | None \<Rightarrow> (Return (False, req, None, None), s))"
  using assms
  by (simp add: processRequest_def match_domain_def processRequest_loop_first_hit Let_def
      split: option.splits)

text \<open>
  \<^verbatim>\<open>Resolve\<close> on a request with a question: the entry that answers the query domain
  decides between the sub-pipeline and the next link.
\<close>

lemma Resolve_by_match:
  assumes "Question (Req req) = q # qs"
  shows "Resolve c r req s =
     (case match_domain (mapping r) (ExtractDomain c q) of
        Some (x, reso) \<Rightarrow> internalResolve c reso (ExtractDomain c q) x req s
      | None \<Rightarrow> next_Resolve r req s)"
proof (cases "mapping r = []")
  case True
  then show ?thesis
    by (simp add: Resolve_def match_domain_def first_hit_empty)
next
  case False
  show ?thesis
  proof (cases "match_domain (mapping r) (ExtractDomain c q)")
    case None
    with False show ?thesis
      by (simp add: Resolve_def processRequest_by_match [OF assms])
  next
    case (Some hit)
    obtain x reso where hit: "hit = (x, reso)" by (cases hit)
    obtain res s1 where ir: "internalResolve c reso (ExtractDomain c q) x req s = (res, s1)"
      by (cases "internalResolve c reso (ExtractDomain c q) x req s")
    show ?thesis
    proof (cases res)
      case Panic
      with False Some hit ir show ?thesis
        by (simp add: Resolve_def processRequest_by_match [OF assms])
    next
      case (Return t)
      obtain req1 resp err where "t = (req1, resp, err)" by (cases t)
      with Return False Some hit ir show ?thesis
        by (simp add: Resolve_def processRequest_by_match [OF assms])
    qed
  qed
qed










text \<open>
  C1, as stated, fails: for the question \<^verbatim>\<open>sub.example.com\<close>, matched by the entry
  \<^verbatim>\<open>example.com\<close>, the request comes back with the name \<^verbatim>\<open>sub.example.com.\<close>, and so
  does the response.
\<close>

theorem conditional_name_not_restored:
  "Resolve test_Collab test_conditional (test_request ''sub.example.com'') 0 =
     (Return (test_request ''sub.example.com.'',
              Some \<lparr>Res = \<lparr>Question = [\<lparr>Name = ''sub.example.com.'', Qtype = TypeA\<rparr>],
                           Answer = [A [10, 0, 0, 1]], Rcode = RcodeSuccess\<rparr>,
                    Reason = ''CONDITIONAL'', RType = ResponseTypeCONDITIONAL\<rparr>,
              None), 1)"
  by (simp add: Resolve_def processRequest_def processRequest_loop.simps internalResolve_def
      Contains_dot_def test_request_def test_conditional_def test_upstream_def
      test_answer_def test_Collab_def util_ExtractDomain_def dns_Fqdn_def ToLower_char_def
      RcodeSuccess_def)

text \<open>
  C1, amended. For a request whose domain matches the conditional mapping, \<^verbatim>\<open>Resolve\<close>
  queries the sub-pipeline with \<^verbatim>\<open>Question[0].Name\<close> rewritten to the fully-qualified
  form of the query domain and does not restore it: on success and on error the request
  is returned as the sub-pipeline left it, and on success the \<^verbatim>\<open>Question[0].Name\<close> of
  the response (when it has a question) is set to the \<^verbatim>\<open>Question[0].Name\<close> that the
  request has at that moment, the rewritten one unless the sub-pipeline changed it. The
  response is also tagged with the reason and the response type of conditional routing.
\<close>

theorem conditional_question_name:
  assumes "Question (Req req) = q # qs"
    and "match_domain (mapping r) (ExtractDomain c q) = Some (x, reso)"
    and "reso (req\<lparr>Req := (Req req)\<lparr>Question := q\<lparr>Name := Fqdn c (ExtractDomain c q)\<rparr> # qs\<rparr>\<rparr>) s
           = ((req2, response, e), s1)"
    and "Question (Req req2) = q2 # qs2"
  shows "Resolve c r req s =
     (case e of
        Some _ \<Rightarrow> (Return (req2, response, e), s1)
      | None \<Rightarrow>
          (case response of
             None \<Rightarrow> (Panic, s1)
           | Some rsp \<Rightarrow>
               (Return (req2,
                  Some (rsp\<lparr>Reason := ''CONDITIONAL'', RType := ResponseTypeCONDITIONAL,
                           Res := (Res rsp)\<lparr>Question :=
                             (case Question (Res rsp) of
                                [] \<Rightarrow> []
                              | rq # rqs \<Rightarrow> rq\<lparr>Name := Name q2\<rparr> # rqs)\<rparr>\<rparr>),
                  None), s1)))"
  using assms
  by (simp add: Resolve_by_match [OF assms(1)] internalResolve_def Let_def
      split: option.splits list.splits)

theorem conditional_question_name_witness:
  "Question (Req (test_request ''Mail.Example.COM.'')) = \<lparr>Name = ''Mail.Example.COM.'', Qtype = TypeA\<rparr> # []
   \<and> match_domain (mapping test_conditional)
         (ExtractDomain test_Collab \<lparr>Name = ''Mail.Example.COM.'', Qtype = TypeA\<rparr>)
       = Some (''example.com'', test_upstream (test_answer [A [10, 0, 0, 1]]))
   \<and> test_upstream (test_answer [A [10, 0, 0, 1]]) (test_request ''mail.example.com.'') 0
       = ((test_request ''mail.example.com.'',
           test_answer [A [10, 0, 0, 1]] \<lparr>Name = ''mail.example.com.'', Qtype = TypeA\<rparr>), 1)
   \<and> Question (Req (test_request ''mail.example.com.''))
       = \<lparr>Name = ''mail.example.com.'', Qtype = TypeA\<rparr> # []
   \<and> Resolve test_Collab test_conditional (test_request ''Mail.Example.COM.'') 0 =
       (Return (test_request ''mail.example.com.'',
                Some \<lparr>Res = \<lparr>Question = [\<lparr>Name = ''mail.example.com.'', Qtype = TypeA\<rparr>],
                             Answer = [A [10, 0, 0, 1]], Rcode = RcodeSuccess\<rparr>,
                      Reason = ''CONDITIONAL'', RType = ResponseTypeCONDITIONAL\<rparr>,
                None), 1)"
proof -
  let ?q = "\<lparr>Name = ''Mail.Example.COM.'', Qtype = TypeA\<rparr>"
  let ?U = "test_upstream (test_answer [A [10, 0, 0, 1]])"
  have q: "Question (Req (test_request ''Mail.Example.COM.'')) = ?q # []"
    by (simp add: test_request_def)
  have d: "ExtractDomain test_Collab ?q = ''mail.example.com''"
    by (simp add: test_Collab_def util_ExtractDomain_def ToLower_char_def)
  have f: "Fqdn test_Collab ''mail.example.com'' = ''mail.example.com.''"
    by (simp add: test_Collab_def dns_Fqdn_def)
  have l: "label_suffixes ''mail.example.com'' = [''mail.example.com'', ''example.com'', ''com'']"
    by (simp add: label_suffixes.simps)
  have m: "match_domain (mapping test_conditional) (ExtractDomain test_Collab ?q)
             = Some (''example.com'', ?U)"
    by (simp add: d l match_domain_def Contains_dot_def test_conditional_def)
  have r1: "(test_request ''Mail.Example.COM.'')\<lparr>Req := (Req (test_request ''Mail.Example.COM.''))
               \<lparr>Question := ?q\<lparr>Name := Fqdn test_Collab (ExtractDomain test_Collab ?q)\<rparr> # []\<rparr>\<rparr>
            = test_request ''mail.example.com.''"
    by (simp add: d f test_request_def)
  have u: "?U (test_request ''mail.example.com.'') 0
       = ((test_request ''mail.example.com.'',
           test_answer [A [10, 0, 0, 1]] \<lparr>Name = ''mail.example.com.'', Qtype = TypeA\<rparr>), 1)"
    by (simp add: test_upstream_def test_request_def)
  have u': "?U ((test_request ''Mail.Example.COM.'')\<lparr>Req := (Req (test_request ''Mail.Example.COM.''))
               \<lparr>Question := ?q\<lparr>Name := Fqdn test_Collab (ExtractDomain test_Collab ?q)\<rparr> # []\<rparr>\<rparr>) 0
       = ((test_request ''mail.example.com.'',
           Some \<lparr>Res = \<lparr>Question = [\<lparr>Name = ''mail.example.com.'', Qtype = TypeA\<rparr>],
                             Answer = [A [10, 0, 0, 1]], Rcode = RcodeSuccess\<rparr>,
                      Reason = ''RESOLVED'', RType = ResponseTypeRESOLVED\<rparr>, None), 1)"
    unfolding r1 u by (simp add: test_answer_def)
  have q2: "Question (Req (test_request ''mail.example.com.''))
              = \<lparr>Name = ''mail.example.com.'', Qtype = TypeA\<rparr> # []"
    by (simp add: test_request_def)
  from conditional_question_name [OF q m u' q2] q m u q2 show ?thesis
    by simp
qed

end
